theory Spec2Isabelle
  imports Complex_Main "HOL-Library.Char_ord" "HOL-Library.List_Lexorder"
begin

section \<open>Forecast dashboard: data frames, normalisation, KPIs, residuals\<close>

text \<open>
  The program is one script, \<^verbatim>\<open>app.py\<close>, run top to bottom on every refresh. The
  embedding follows it in the same order: the frames built from the API responses, the
  date conversion of each frame, the KPI arithmetic, the two change tiles, the residual
  join, and last the script as a whole.

  Numbers are Python floats in the source and \<open>real\<close> here: the arithmetic below is exact,
  and rounding is outside what is modelled. Dates are the strings the frames hold; they are
  compared as strings, as pandas compares them.
\<close>

subsection \<open>Frames\<close>

text \<open>
  \<^verbatim>\<open>pd.DataFrame(pred_data.get("predictions", []))\<close> is a table with the columns
  \<^verbatim>\<open>date\<close> and \<^verbatim>\<open>yhat\<close>, \<^verbatim>\<open>pd.DataFrame(hist.get("history", []))\<close> one with
  \<^verbatim>\<open>date\<close> and \<^verbatim>\<open>close\<close>. A frame is the list of its rows, in the order of the records.
\<close>

record pred_row =
  p_date :: string
  p_yhat :: real

record hist_row =
  h_date :: string
  h_close :: real

subsection \<open>Date conversion\<close>

text \<open>
  \<^verbatim>\<open>pd.to_datetime(col).dt.date.astype(str)\<close> converts a column as a whole: pandas
  settles from the column how its cells are read (it takes one format from the first cell
  and reads every cell with it), truncates each cell to its calendar day and prints the
  day. The parser belongs to pandas, so it is a parameter here: \<open>parse col c\<close> is the
  printed day of the cell \<open>c\<close> within the column \<open>col\<close>, or \<open>None\<close> where the conversion
  of \<open>col\<close> raises at \<open>c\<close>. One cell at which it raises fails the whole column.
\<close>

type_synonym parser = "string list \<Rightarrow> string \<Rightarrow> string option"

fun convert_cells :: "(string \<Rightarrow> string option) \<Rightarrow> string list \<Rightarrow> string list option" where
  "convert_cells f [] = Some []"
| "convert_cells f (s # ss) =
     (case f s of
        None \<Rightarrow> None
      | Some d \<Rightarrow> (case convert_cells f ss of None \<Rightarrow> None | Some ds \<Rightarrow> Some (d # ds)))"

definition to_datetime :: "parser \<Rightarrow> string list \<Rightarrow> string list option" where
  "to_datetime parse col = convert_cells (parse col) col"

text \<open>
  Lines 177 to 179: the forecast frame. The date column is replaced only when the frame
  has rows; \<open>None\<close> is the exception that the enclosing \<^verbatim>\<open>try\<close> catches.
\<close>

definition pred_frame :: "parser \<Rightarrow> pred_row list \<Rightarrow> pred_row list option" where
  "pred_frame parse predictions =
     (let pred_df = predictions in
      if pred_df \<noteq> [] then
        (case to_datetime parse (map p_date pred_df) of
           None \<Rightarrow> None
         | Some ds \<Rightarrow> Some (map2 (\<lambda>r d. r\<lparr>p_date := d\<rparr>) pred_df ds))
      else Some pred_df)"

text \<open>Lines 189 to 191: the history frame, converted the same way.\<close>

definition history_frame :: "parser \<Rightarrow> hist_row list \<Rightarrow> hist_row list option" where
  "history_frame parse history =
     (let history_df = history in
      if history_df \<noteq> [] then
        (case to_datetime parse (map h_date history_df) of
           None \<Rightarrow> None
         | Some ds \<Rightarrow> Some (map2 (\<lambda>r d. r\<lparr>h_date := d\<rparr>) history_df ds))
      else Some history_df)"

text \<open>
  A parser for the concrete inputs below, on a fragment of what pandas reads: a column of
  ISO days \<^verbatim>\<open>YYYY-MM-DD\<close> or a column of ISO day-times \<^verbatim>\<open>YYYY-MM-DDTHH:MM:SS\<close>, of
  days that exist and years that a pandas timestamp holds. The format is that of the first
  cell, and a cell of the other format, or of neither, fails the column. On a column
  outside the fragment the answer is \<open>None\<close> throughout, which says nothing of pandas
  there; the examples stay inside the fragment, with \<^verbatim>\<open>not-a-date\<close> as the text that
  has no format.
\<close>

definition digit :: "char \<Rightarrow> nat option" where
  "digit c =
     map_of [(CHR ''0'', 0), (CHR ''1'', 1), (CHR ''2'', 2), (CHR ''3'', 3), (CHR ''4'', 4),
             (CHR ''5'', 5), (CHR ''6'', 6), (CHR ''7'', 7), (CHR ''8'', 8), (CHR ''9'', 9)] c"

definition number :: "string \<Rightarrow> nat option" where
  "number cs =
     fold (\<lambda>c acc. case (acc, digit c) of (Some n, Some d) \<Rightarrow> Some (10 * n + d) | _ \<Rightarrow> None)
          cs (Some 0)"

definition leap :: "nat \<Rightarrow> bool" where
  "leap y = (y mod 4 = 0 \<and> (if y mod 100 = 0 then y mod 400 = 0 else True))"

definition days_in :: "nat \<Rightarrow> nat \<Rightarrow> nat" where
  "days_in y m =
     (if m = 2 then (if leap y then 29 else 28)
      else if m = 4 \<or> m = 6 \<or> m = 9 \<or> m = 11 then 30 else 31)"

definition iso_date :: "string \<Rightarrow> bool" where
  "iso_date s =
     (length s = 10 \<and> s ! 4 = CHR ''-'' \<and> s ! 7 = CHR ''-'' \<and>
      (case (number (take 4 s), number (take 2 (drop 5 s)), number (drop 8 s)) of
         (Some y, Some m, Some d) \<Rightarrow>
           1678 \<le> y \<and> y \<le> 2261 \<and> 1 \<le> m \<and> m \<le> 12 \<and> 1 \<le> d \<and> d \<le> days_in y m
       | _ \<Rightarrow> False))"

definition iso_time :: "string \<Rightarrow> bool" where
  "iso_time s =
     (length s = 9 \<and> s ! 0 = CHR ''T'' \<and> s ! 3 = CHR '':'' \<and> s ! 6 = CHR '':'' \<and>
      (case (number (take 2 (drop 1 s)), number (take 2 (drop 4 s)), number (drop 7 s)) of
         (Some h, Some m, Some sec) \<Rightarrow> h < 24 \<and> m < 60 \<and> sec < 60
       | _ \<Rightarrow> False))"

datatype iso_format = PlainDay | DayTime

definition guess_format :: "string \<Rightarrow> iso_format option" where
  "guess_format s =
     (if iso_date s then Some PlainDay
      else if iso_date (take 10 s) \<and> iso_time (drop 10 s) then Some DayTime
      else None)"

definition iso_col :: parser where
  "iso_col col c =
     (case col of
        [] \<Rightarrow> None
      | first # _ \<Rightarrow>
          (case guess_format first of
             None \<Rightarrow> None
           | Some f \<Rightarrow> if guess_format c = Some f then Some (take 10 c) else None))"

text \<open>
  The order of two raw cells by the days a cell parser gives them; a cell without a day is
  before and after nothing.
\<close>

definition day_before :: "(string \<Rightarrow> string option) \<Rightarrow> string \<Rightarrow> string \<Rightarrow> bool" where
  "day_before f s t = (case (f s, f t) of (Some d, Some e) \<Rightarrow> d < e | _ \<Rightarrow> False)"

subsection \<open>KPI row\<close>

text \<open>
  Lines 199 to 222. \<open>last_value\<close> is \<^verbatim>\<open>pred_data.get("last_value")\<close>: \<open>None\<close> when the
  key is missing or null. \<^verbatim>\<open>pred_df.iloc[-1]\<close> and \<^verbatim>\<open>pred_df.iloc[0]\<close> are read only
  when the frame has rows.
\<close>

record kpis =
  end_pred :: "real option"
  delta_h :: "real option"
  pct_h :: "real option"
  next_pred :: "real option"
  delta :: "real option"
  pct :: "real option"

definition kpi_row :: "real option \<Rightarrow> pred_row list \<Rightarrow> kpis" where
  "kpi_row last_value pred_df =
     (let end_pred = (if pred_df \<noteq> [] then Some (p_yhat (last pred_df)) else None);
          (delta_h, pct_h) =
            (case (last_value, end_pred) of
               (Some lv, Some ep) \<Rightarrow>
                 (Some (ep - lv), if lv \<noteq> 0 then Some ((ep - lv) / lv * 100) else None)
             | _ \<Rightarrow> (None, None));
          next_pred = (if pred_df \<noteq> [] then Some (p_yhat (hd pred_df)) else None);
          (delta, pct) =
            (case (last_value, next_pred) of
               (Some lv, Some np) \<Rightarrow>
                 (Some (np - lv), if lv \<noteq> 0 then Some ((np - lv) / lv * 100) else None)
             | _ \<Rightarrow> (None, None))
      in \<lparr>end_pred = end_pred, delta_h = delta_h, pct_h = pct_h,
          next_pred = next_pred, delta = delta, pct = pct\<rparr>)"

subsection \<open>The two change tiles\<close>

text \<open>
  Lines 252 to 282. A tile is the placeholder \<^verbatim>\<open>-\<close> or an arrow with the change and
  its percentage. The step tile tests \<open>delta\<close> alone and then formats \<open>pct\<close> with
  \<^verbatim>\<open>{pct:,.3f}\<close>, which raises \<^verbatim>\<open>TypeError\<close> on \<^verbatim>\<open>None\<close>; the horizon tile tests both
  of its values.
\<close>

datatype tile = Dash | Change bool real real

datatype exn = TypeError

definition step_tile :: "real option \<Rightarrow> real option \<Rightarrow> exn + tile" where
  "step_tile = (\<lambda>delta pct.
     case delta of
       None \<Rightarrow> Inr Dash
     | Some d \<Rightarrow> (case pct of None \<Rightarrow> Inl TypeError | Some q \<Rightarrow> Inr (Change (d \<ge> 0) d q)))"

definition horizon_tile :: "real option \<Rightarrow> real option \<Rightarrow> tile" where
  "horizon_tile = (\<lambda>delta_h pct_h.
     case (delta_h, pct_h) of
       (Some d, Some q) \<Rightarrow> Change (d \<ge> 0) d q
     | _ \<Rightarrow> Dash)"

subsection \<open>Residuals\<close>

text \<open>
  Lines 95 to 122. \<^verbatim>\<open>pd.merge(a, p, on="date", how="inner")\<close> pairs every row of the
  left frame with the rows of the right frame that have its date, in the order of the left
  frame. The two assignments add the columns \<^verbatim>\<open>residual\<close> and \<^verbatim>\<open>abs_error\<close>.
\<close>

record join_row =
  date :: string
  close :: real
  yhat :: real

record resid_row = join_row +
  residual :: real

record merged_row = resid_row +
  abs_error :: real

definition merge_inner :: "hist_row list \<Rightarrow> pred_row list \<Rightarrow> join_row list" where
  "merge_inner a p =
     concat (map (\<lambda>h. map (\<lambda>f. \<lparr>date = h_date h, close = h_close h, yhat = p_yhat f\<rparr>)
                          (filter (\<lambda>f. p_date f = h_date h) p)) a)"

definition add_residual :: "join_row list \<Rightarrow> resid_row list" where
  "add_residual merged =
     map (\<lambda>r. \<lparr>date = date r, close = close r, yhat = yhat r,
               residual = close r - yhat r\<rparr>) merged"

definition add_abs_error :: "resid_row list \<Rightarrow> merged_row list" where
  "add_abs_error merged =
     map (\<lambda>r. \<lparr>date = date r, close = close r, yhat = yhat r,
               residual = residual r, abs_error = \<bar>residual r\<bar>\<rparr>) merged"

definition mean :: "real list \<Rightarrow> real" where
  "mean xs = sum_list xs / real (length xs)"

text \<open>The figure is its one bar trace: the dates on the x axis, the residuals on the y axis.\<close>

record fig =
  bar_x :: "string list"
  bar_y :: "real list"

definition merged_frame :: "hist_row list \<Rightarrow> pred_row list \<Rightarrow> merged_row list" where
  "merged_frame a p = add_abs_error (add_residual (merge_inner a p))"

definition build_residual_fig ::
  "hist_row list option \<Rightarrow> pred_row list option \<Rightarrow> fig option \<times> real option" where
  "build_residual_fig history_df pred_df =
     (case (history_df, pred_df) of
        (Some h, Some p) \<Rightarrow>
          if h = [] \<or> p = [] then (None, None)
          else if merge_inner h p = [] then (None, None)
          else
            (let merged = merged_frame h p;
                 fig = \<lparr>bar_x = map date merged, bar_y = map residual merged\<rparr>;
                 mae = mean (map abs_error merged)
             in (Some fig, Some mae))
      | _ \<Rightarrow> (None, None))"

subsection \<open>Residuals, with the frames as objects\<close>

text \<open>
  The same function on a store of frame objects, for what it does to its arguments.
  \<^verbatim>\<open>copy\<close> and \<^verbatim>\<open>pd.merge\<close> allocate a new object; an assignment to a column of
  \<^verbatim>\<open>merged\<close> updates the object \<^verbatim>\<open>merged\<close> refers to, in place. \<open>None\<close> is a
  reference that does not hold a frame of the expected columns.
\<close>

type_synonym addr = nat

datatype frame =
    HistF "hist_row list"
  | PredF "pred_row list"
  | JoinF "join_row list"
  | ResidF "resid_row list"
  | MergedF "merged_row list"

record heap =
  frames :: "addr \<Rightarrow> frame option"
  fresh :: addr

definition alloc :: "frame \<Rightarrow> heap \<Rightarrow> addr \<times> heap" where
  "alloc f s = (fresh s, \<lparr>frames = (frames s)(fresh s \<mapsto> f), fresh = Suc (fresh s)\<rparr>)"

definition assign :: "addr \<Rightarrow> frame \<Rightarrow> heap \<Rightarrow> heap" where
  "assign a f s = s\<lparr>frames := (frames s)(a \<mapsto> f)\<rparr>"

definition hist_at :: "heap \<Rightarrow> addr \<Rightarrow> hist_row list" where
  "hist_at s a = (case frames s a of Some (HistF rows) \<Rightarrow> rows | _ \<Rightarrow> [])"

definition pred_at :: "heap \<Rightarrow> addr \<Rightarrow> pred_row list" where
  "pred_at s a = (case frames s a of Some (PredF rows) \<Rightarrow> rows | _ \<Rightarrow> [])"

definition join_at :: "heap \<Rightarrow> addr \<Rightarrow> join_row list" where
  "join_at s a = (case frames s a of Some (JoinF rows) \<Rightarrow> rows | _ \<Rightarrow> [])"

definition resid_at :: "heap \<Rightarrow> addr \<Rightarrow> resid_row list" where
  "resid_at s a = (case frames s a of Some (ResidF rows) \<Rightarrow> rows | _ \<Rightarrow> [])"

definition merged_at :: "heap \<Rightarrow> addr \<Rightarrow> merged_row list" where
  "merged_at s a = (case frames s a of Some (MergedF rows) \<Rightarrow> rows | _ \<Rightarrow> [])"

definition build_residual_fig_st ::
  "addr option \<Rightarrow> addr option \<Rightarrow> heap \<Rightarrow> ((fig option \<times> real option) \<times> heap) option" where
  "build_residual_fig_st history_df pred_df s =
     (case (history_df, pred_df) of
        (Some ha, Some pa) \<Rightarrow>
          (case (frames s ha, frames s pa) of
             (Some (HistF h), Some (PredF p)) \<Rightarrow>
               if h = [] \<or> p = [] then Some ((None, None), s)
               else
                 (let (a, s1) = alloc (HistF (hist_at s ha)) s;
                      (p, s2) = alloc (PredF (pred_at s1 pa)) s1;
                      (merged, s3) = alloc (JoinF (merge_inner (hist_at s2 a) (pred_at s2 p))) s2
                  in if join_at s3 merged = [] then Some ((None, None), s3)
                     else
                       (let s4 = assign merged (ResidF (add_residual (join_at s3 merged))) s3;
                            s5 = assign merged (MergedF (add_abs_error (resid_at s4 merged))) s4;
                            fig = \<lparr>bar_x = map date (merged_at s5 merged),
                                   bar_y = map residual (merged_at s5 merged)\<rparr>;
                            mae = mean (map abs_error (merged_at s5 merged))
                        in Some ((Some fig, Some mae), s5)))
           | _ \<Rightarrow> None)
      | _ \<Rightarrow> Some ((None, None), s))"

subsection \<open>The script\<close>

text \<open>
  Lines 159 to 330, one run. \<^verbatim>\<open>get_json\<close> either returns the decoded body or raises;
  a response is \<open>Inl\<close> of the message or \<open>Inr\<close> of the body. A body that is not a JSON
  object makes \<^verbatim>\<open>.get\<close> raise inside the same \<^verbatim>\<open>try\<close>, so it is an \<open>Inl\<close> as well.
  The run returns the requests it issued, in order, and how it ended: stopped by
  \<^verbatim>\<open>st.stop()\<close> after \<^verbatim>\<open>st.error\<close>, ended by an exception nothing catches, or
  rendered. Of what is rendered the model keeps the last value and date, the KPI row, the two
  change tiles, the two frames and the diagnostics; the charts, the forecast table with its
  download and the refresh timer are left out.
\<close>

record health_resp =
  status :: "string option"

record predict_resp =
  last_date :: "string option"
  last_value :: "real option"
  predictions :: "pred_row list"

record history_resp =
  history :: "hist_row list"

record api =
  health_api :: "string + health_resp"
  predict_api :: "string + predict_resp"
  history_api :: "string + history_resp"

record config =
  asset :: string
  horizon :: nat
  history_days :: nat

datatype request = GetHealth | GetPredict string nat | GetHistory string nat

datatype stop = Unhealthy | PredictFailed

datatype diagnostics = HistoryDisabled | NoOverlap | Residuals fig real

definition health_ok :: "string + health_resp \<Rightarrow> bool" where
  "health_ok r = (case r of Inr health \<Rightarrow> status health = Some ''ok'' | Inl e \<Rightarrow> False)"

definition fetch_predictions :: "parser \<Rightarrow> string + predict_resp \<Rightarrow> (predict_resp \<times> pred_row list) option" where
  "fetch_predictions parse r =
     (case r of
        Inl e \<Rightarrow> None
      | Inr pred_data \<Rightarrow>
          (case pred_frame parse (predictions pred_data) of
             None \<Rightarrow> None
           | Some pred_df \<Rightarrow> Some (pred_data, pred_df)))"

definition fetch_history :: "parser \<Rightarrow> string + history_resp \<Rightarrow> bool \<times> hist_row list" where
  "fetch_history parse r =
     (case r of
        Inl e \<Rightarrow> (False, [])
      | Inr hist \<Rightarrow>
          (case history_frame parse (history hist) of
             None \<Rightarrow> (False, [])
           | Some history_df \<Rightarrow> (True, history_df)))"

definition diagnostics_of :: "bool \<Rightarrow> hist_row list \<Rightarrow> pred_row list \<Rightarrow> diagnostics" where
  "diagnostics_of history_supported history_df pred_df =
     (if history_supported then
        (case build_residual_fig (Some history_df) (Some pred_df) of
           (Some res_fig, Some mae) \<Rightarrow> Residuals res_fig mae
         | _ \<Rightarrow> NoOverlap)
      else HistoryDisabled)"

record dashboard =
  shown_last_date :: "string option"
  shown_last_value :: "real option"
  shown_kpis :: kpis
  step_change :: tile
  horizon_change :: tile
  d_history_supported :: bool
  d_history_df :: "hist_row list"
  d_pred_df :: "pred_row list"
  diag :: diagnostics

datatype outcome = Stopped stop | Crashed exn | Rendered dashboard

definition cycle :: "parser \<Rightarrow> config \<Rightarrow> api \<Rightarrow> request list \<times> outcome" where
  "cycle parse cfg srv =
     (let log1 = [GetHealth] in
      if \<not> health_ok (health_api srv) then (log1, Stopped Unhealthy)
      else
        (let log2 = log1 @ [GetPredict (asset cfg) (horizon cfg)] in
         case fetch_predictions parse (predict_api srv) of
           None \<Rightarrow> (log2, Stopped PredictFailed)
         | Some (pred_data, pred_df) \<Rightarrow>
             (let log3 = log2 @ [GetHistory (asset cfg) (history_days cfg)];
                  (history_supported, history_df) = fetch_history parse (history_api srv);
                  k = kpi_row (last_value pred_data) pred_df
              in case step_tile (delta k) (pct k) of
                   Inl x \<Rightarrow> (log3, Crashed x)
                 | Inr c4 \<Rightarrow>
                     (log3, Rendered
                        \<lparr>shown_last_date = last_date pred_data,
                         shown_last_value = last_value pred_data,
                         shown_kpis = k,
                         step_change = c4,
                         horizon_change = horizon_tile (delta_h k) (pct_h k),
                         d_history_supported = history_supported,
                         d_history_df = history_df,
                         d_pred_df = pred_df,
                         diag = diagnostics_of history_supported history_df pred_df\<rparr>))))"

section \<open>Properties\<close>

subsection \<open>Date conversion\<close>

lemmas iso_defs = to_datetime_def iso_col_def guess_format_def iso_date_def iso_time_def
  number_def digit_def days_in_def leap_def

lemma convert_cells_Some:
  "convert_cells f ss = Some ds \<Longrightarrow> list_all2 (\<lambda>s d. f s = Some d) ss ds"
  by (induction ss arbitrary: ds) (auto split: option.splits)


lemma list_all2_left:
  "list_all2 P xs ys \<Longrightarrow> x \<in> set xs \<Longrightarrow> \<exists>y \<in> set ys. P x y"
  by (induction rule: list_all2_induct) auto

lemma list_all2_right:
  "list_all2 P xs ys \<Longrightarrow> y \<in> set ys \<Longrightarrow> \<exists>x \<in> set xs. P x y"
  by (induction rule: list_all2_induct) auto


lemma sorted_parsed:
  assumes "list_all2 (\<lambda>s d. f s = Some d) ss ds"
  shows "sorted_wrt (<) ds \<longleftrightarrow> sorted_wrt (day_before f) ss"
  using assms
proof (induction rule: list_all2_induct)
  case Nil
  then show ?case by simp
next
  case (Cons s ss d ds)
  have "(\<forall>e \<in> set ds. d < e) \<longleftrightarrow> (\<forall>t \<in> set ss. day_before f s t)"
  proof
    assume l: "\<forall>e \<in> set ds. d < e"
    show "\<forall>t \<in> set ss. day_before f s t"
    proof
      fix t assume "t \<in> set ss"
      with Cons.hyps(2) obtain e where "e \<in> set ds" "f t = Some e"
        by (blast dest: list_all2_left)
      with l Cons.hyps(1) show "day_before f s t"
        by (simp add: day_before_def)
    qed
  next
    assume r: "\<forall>t \<in> set ss. day_before f s t"
    show "\<forall>e \<in> set ds. d < e"
    proof
      fix e assume "e \<in> set ds"
      with Cons.hyps(2) obtain t where "t \<in> set ss" "f t = Some e"
        by (blast dest: list_all2_right)
      with r Cons.hyps(1) show "d < e"
        by (auto simp: day_before_def)
    qed
  qed
  with Cons.IH show ?case by simp
qed

lemma pred_dates_set:
  "list_all2 (\<lambda>r d. f (p_date r) = Some d) recs ds \<Longrightarrow>
     list_all2 (\<lambda>r r'. f (p_date r) = Some (p_date r') \<and> p_yhat r' = p_yhat r)
       recs (map2 (\<lambda>r d. r\<lparr>p_date := d\<rparr>) recs ds)"
  by (induction rule: list_all2_induct) simp_all

lemma hist_dates_set:
  "list_all2 (\<lambda>r d. f (h_date r) = Some d) recs ds \<Longrightarrow>
     list_all2 (\<lambda>r r'. f (h_date r) = Some (h_date r') \<and> h_close r' = h_close r)
       recs (map2 (\<lambda>r d. r\<lparr>h_date := d\<rparr>) recs ds)"
  by (induction rule: list_all2_induct) simp_all

lemma pred_frame_Some:
  assumes "pred_frame parse recs = Some out"
  shows "list_all2 (\<lambda>r r'. parse (map p_date recs) (p_date r) = Some (p_date r')
                          \<and> p_yhat r' = p_yhat r) recs out"
proof (cases "recs = []")
  case True
  with assms show ?thesis by (simp add: pred_frame_def)
next
  case False
  with assms obtain ds where ds: "convert_cells (parse (map p_date recs)) (map p_date recs) = Some ds"
    and out: "out = map2 (\<lambda>r d. r\<lparr>p_date := d\<rparr>) recs ds"
    by (auto simp: pred_frame_def to_datetime_def split: option.splits)
  from convert_cells_Some [OF ds]
  have "list_all2 (\<lambda>r d. parse (map p_date recs) (p_date r) = Some d) recs ds"
    by (simp add: list_all2_map1)
  then show ?thesis
    unfolding out by (rule pred_dates_set)
qed

lemma history_frame_Some:
  assumes "history_frame parse recs = Some out"
  shows "list_all2 (\<lambda>r r'. parse (map h_date recs) (h_date r) = Some (h_date r')
                          \<and> h_close r' = h_close r) recs out"
proof (cases "recs = []")
  case True
  with assms show ?thesis by (simp add: history_frame_def)
next
  case False
  with assms obtain ds where ds: "convert_cells (parse (map h_date recs)) (map h_date recs) = Some ds"
    and out: "out = map2 (\<lambda>r d. r\<lparr>h_date := d\<rparr>) recs ds"
    by (auto simp: history_frame_def to_datetime_def split: option.splits)
  from convert_cells_Some [OF ds]
  have "list_all2 (\<lambda>r d. parse (map h_date recs) (h_date r) = Some d) recs ds"
    by (simp add: list_all2_map1)
  then show ?thesis
    unfolding out by (rule hist_dates_set)
qed



text \<open>
  C1, as the code has it. Neither frame is sorted or de-duplicated: a converted frame has
  one row for each record, in the order of the records, with the date replaced by the day
  the conversion of the column gives that cell and the value kept. So a converted frame is
  sorted ascending by date with no date twice exactly when the days of the records, in the
  order received, are strictly ascending.
\<close>

theorem frames_keep_record_order:
  "(pred_frame parse ps = Some pout \<longrightarrow>
      list_all2 (\<lambda>r r'. parse (map p_date ps) (p_date r) = Some (p_date r')
                       \<and> p_yhat r' = p_yhat r) ps pout
      \<and> (sorted (map p_date pout) \<and> distinct (map p_date pout)
           \<longleftrightarrow> sorted_wrt (day_before (parse (map p_date ps))) (map p_date ps)))
   \<and> (history_frame parse hs = Some hout \<longrightarrow>
      list_all2 (\<lambda>r r'. parse (map h_date hs) (h_date r) = Some (h_date r')
                       \<and> h_close r' = h_close r) hs hout
      \<and> (sorted (map h_date hout) \<and> distinct (map h_date hout)
           \<longleftrightarrow> sorted_wrt (day_before (parse (map h_date hs))) (map h_date hs)))"
proof (intro conjI impI)
  assume a: "pred_frame parse ps = Some pout"
  from pred_frame_Some [OF a]
  show l: "list_all2 (\<lambda>r r'. parse (map p_date ps) (p_date r) = Some (p_date r')
                            \<and> p_yhat r' = p_yhat r) ps pout" .
  then have "list_all2 (\<lambda>s d. parse (map p_date ps) s = Some d) (map p_date ps) (map p_date pout)"
    by (simp add: list_all2_map1 list_all2_map2 list_all2_mono)
  then have "sorted_wrt (<) (map p_date pout)
               \<longleftrightarrow> sorted_wrt (day_before (parse (map p_date ps))) (map p_date ps)"
    by (rule sorted_parsed)
  then show "sorted (map p_date pout) \<and> distinct (map p_date pout)
               \<longleftrightarrow> sorted_wrt (day_before (parse (map p_date ps))) (map p_date ps)"
    by (simp add: strict_sorted_iff)
next
  assume a: "history_frame parse hs = Some hout"
  from history_frame_Some [OF a]
  show l: "list_all2 (\<lambda>r r'. parse (map h_date hs) (h_date r) = Some (h_date r')
                            \<and> h_close r' = h_close r) hs hout" .
  then have "list_all2 (\<lambda>s d. parse (map h_date hs) s = Some d) (map h_date hs) (map h_date hout)"
    by (simp add: list_all2_map1 list_all2_map2 list_all2_mono)
  then have "sorted_wrt (<) (map h_date hout)
               \<longleftrightarrow> sorted_wrt (day_before (parse (map h_date hs))) (map h_date hs)"
    by (rule sorted_parsed)
  then show "sorted (map h_date hout) \<and> distinct (map h_date hout)
               \<longleftrightarrow> sorted_wrt (day_before (parse (map h_date hs))) (map h_date hs)"
    by (simp add: strict_sorted_iff)
qed

theorem frames_keep_record_order_witness:
  "pred_frame iso_col
       [\<lparr>p_date = ''2024-01-01T09:30:00'', p_yhat = 100\<rparr>,
        \<lparr>p_date = ''2024-01-02T09:30:00'', p_yhat = 101\<rparr>]
     = Some [\<lparr>p_date = ''2024-01-01'', p_yhat = 100\<rparr>, \<lparr>p_date = ''2024-01-02'', p_yhat = 101\<rparr>]
   \<and> sorted (map p_date [\<lparr>p_date = ''2024-01-01'', p_yhat = 100\<rparr>, \<lparr>p_date = ''2024-01-02'', p_yhat = 101\<rparr>])
   \<and> distinct (map p_date [\<lparr>p_date = ''2024-01-01'', p_yhat = 100\<rparr>, \<lparr>p_date = ''2024-01-02'', p_yhat = 101\<rparr>])
   \<and> history_frame iso_col
       [\<lparr>h_date = ''2024-01-01'', h_close = 98\<rparr>, \<lparr>h_date = ''2024-01-02'', h_close = 99\<rparr>]
     = Some [\<lparr>h_date = ''2024-01-01'', h_close = 98\<rparr>, \<lparr>h_date = ''2024-01-02'', h_close = 99\<rparr>]
   \<and> sorted (map h_date [\<lparr>h_date = ''2024-01-01'', h_close = 98\<rparr>, \<lparr>h_date = ''2024-01-02'', h_close = 99\<rparr>])
   \<and> distinct (map h_date [\<lparr>h_date = ''2024-01-01'', h_close = 98\<rparr>, \<lparr>h_date = ''2024-01-02'', h_close = 99\<rparr>])"
proof -
  have p: "pred_frame iso_col
       [\<lparr>p_date = ''2024-01-01T09:30:00'', p_yhat = 100\<rparr>,
        \<lparr>p_date = ''2024-01-02T09:30:00'', p_yhat = 101\<rparr>]
     = Some [\<lparr>p_date = ''2024-01-01'', p_yhat = 100\<rparr>, \<lparr>p_date = ''2024-01-02'', p_yhat = 101\<rparr>]"
    by (simp add: pred_frame_def iso_defs)
  have h: "history_frame iso_col
       [\<lparr>h_date = ''2024-01-01'', h_close = 98\<rparr>, \<lparr>h_date = ''2024-01-02'', h_close = 99\<rparr>]
     = Some [\<lparr>h_date = ''2024-01-01'', h_close = 98\<rparr>, \<lparr>h_date = ''2024-01-02'', h_close = 99\<rparr>]"
    by (simp add: history_frame_def iso_defs)
  have ps: "sorted_wrt
       (day_before (iso_col (map p_date
          [\<lparr>p_date = ''2024-01-01T09:30:00'', p_yhat = 100\<rparr>,
           \<lparr>p_date = ''2024-01-02T09:30:00'', p_yhat = 101\<rparr>])))
       (map p_date [\<lparr>p_date = ''2024-01-01T09:30:00'', p_yhat = 100\<rparr>,
                    \<lparr>p_date = ''2024-01-02T09:30:00'', p_yhat = 101\<rparr>])"
    by (simp add: day_before_def iso_defs)
  have hs: "sorted_wrt
       (day_before (iso_col (map h_date
          [\<lparr>h_date = ''2024-01-01'', h_close = 98\<rparr>, \<lparr>h_date = ''2024-01-02'', h_close = 99\<rparr>])))
       (map h_date [\<lparr>h_date = ''2024-01-01'', h_close = 98\<rparr>, \<lparr>h_date = ''2024-01-02'', h_close = 99\<rparr>])"
    by (simp add: day_before_def iso_defs)
  from p h ps hs frames_keep_record_order
    [of iso_col
        "[\<lparr>p_date = ''2024-01-01T09:30:00'', p_yhat = 100\<rparr>,
          \<lparr>p_date = ''2024-01-02T09:30:00'', p_yhat = 101\<rparr>]"
        "[\<lparr>p_date = ''2024-01-01'', p_yhat = 100\<rparr>, \<lparr>p_date = ''2024-01-02'', p_yhat = 101\<rparr>]"
        "[\<lparr>h_date = ''2024-01-01'', h_close = 98\<rparr>, \<lparr>h_date = ''2024-01-02'', h_close = 99\<rparr>]"
        "[\<lparr>h_date = ''2024-01-01'', h_close = 98\<rparr>, \<lparr>h_date = ''2024-01-02'', h_close = 99\<rparr>]"]
  show ?thesis by blast
qed

text \<open>
  The claim as stated fails: two forecast records received latest first stay latest
  first, and two history records of the same day both stay.
\<close>

theorem frames_not_sorted_counterexample:
  "pred_frame iso_col
       [\<lparr>p_date = ''2024-01-02'', p_yhat = 101\<rparr>, \<lparr>p_date = ''2024-01-01'', p_yhat = 100\<rparr>]
     = Some [\<lparr>p_date = ''2024-01-02'', p_yhat = 101\<rparr>, \<lparr>p_date = ''2024-01-01'', p_yhat = 100\<rparr>]
   \<and> \<not> sorted (map p_date [\<lparr>p_date = ''2024-01-02'', p_yhat = 101\<rparr>, \<lparr>p_date = ''2024-01-01'', p_yhat = 100\<rparr>])
   \<and> history_frame iso_col
       [\<lparr>h_date = ''2024-01-01'', h_close = 98\<rparr>, \<lparr>h_date = ''2024-01-01'', h_close = 99\<rparr>]
     = Some [\<lparr>h_date = ''2024-01-01'', h_close = 98\<rparr>, \<lparr>h_date = ''2024-01-01'', h_close = 99\<rparr>]
   \<and> \<not> distinct (map h_date [\<lparr>h_date = ''2024-01-01'', h_close = 98\<rparr>, \<lparr>h_date = ''2024-01-01'', h_close = 99\<rparr>])"
  by (simp add: pred_frame_def history_frame_def iso_defs)

subsection \<open>KPI row\<close>

lemma kpi_row_Nil:
  "kpi_row lv [] =
     \<lparr>end_pred = None, delta_h = None, pct_h = None,
      next_pred = None, delta = None, pct = None\<rparr>"
  by (cases lv) (simp_all add: kpi_row_def)


lemma kpi_row_no_last_value:
  "kpi_row None df =
     \<lparr>end_pred = (if df \<noteq> [] then Some (p_yhat (last df)) else None),
      delta_h = None, pct_h = None,
      next_pred = (if df \<noteq> [] then Some (p_yhat (hd df)) else None),
      delta = None, pct = None\<rparr>"
  by (simp add: kpi_row_def Let_def)

text \<open>
  C9. With an empty forecast frame the next and the end forecast are both \<open>None\<close>, and
  none of the two deltas and two percentages is computed, whatever the last value is.
\<close>

theorem kpi_row_empty_forecast:
  "end_pred (kpi_row lv []) = None \<and> next_pred (kpi_row lv []) = None
   \<and> delta (kpi_row lv []) = None \<and> pct (kpi_row lv []) = None
   \<and> delta_h (kpi_row lv []) = None \<and> pct_h (kpi_row lv []) = None"
  by (simp add: kpi_row_Nil)

subsection \<open>The step tile\<close>

lemmas cycle_defs = cycle_def health_ok_def fetch_predictions_def fetch_history_def
  pred_frame_def history_frame_def iso_defs kpi_row_def step_tile_def
  horizon_tile_def diagnostics_of_def build_residual_fig_def merge_inner_def merged_frame_def
  add_residual_def add_abs_error_def mean_def Let_def

text \<open>
  C4. The predict response with last value 0 and the one prediction (2024-01-02, 5): the
  step delta is 5 and the step percentage is \<open>None\<close>, the step tile formats the percentage
  all the same and raises, and the run ends on that exception. The horizon tile, given the
  same two values, shows the placeholder.
\<close>

theorem step_tile_formats_missing_pct:
  "delta (kpi_row (Some 0) [\<lparr>p_date = ''2024-01-02'', p_yhat = 5\<rparr>]) = Some 5
   \<and> pct (kpi_row (Some 0) [\<lparr>p_date = ''2024-01-02'', p_yhat = 5\<rparr>]) = None
   \<and> step_tile (Some 5) None = Inl TypeError
   \<and> horizon_tile (Some 5) None = Dash
   \<and> cycle iso_col \<lparr>asset = ''BTC-USD'', horizon = 1, history_days = 90\<rparr>
        \<lparr>health_api = Inr \<lparr>status = Some ''ok''\<rparr>,
         predict_api = Inr \<lparr>last_date = Some ''2024-01-01'', last_value = Some 0,
                            predictions = [\<lparr>p_date = ''2024-01-02'', p_yhat = 5\<rparr>]\<rparr>,
         history_api = Inl ''404''\<rparr>
      = ([GetHealth, GetPredict ''BTC-USD'' 1, GetHistory ''BTC-USD'' 90], Crashed TypeError)"
  by (simp add: cycle_defs)

subsection \<open>Residuals\<close>

lemma merged_frame_map:
  "merged_frame h p =
     map (\<lambda>r. \<lparr>date = date r, close = close r, yhat = yhat r,
               residual = close r - yhat r, abs_error = \<bar>close r - yhat r\<bar>\<rparr>) (merge_inner h p)"
  by (simp add: merged_frame_def add_residual_def add_abs_error_def)

lemma merged_frame_Nil_iff: "merged_frame h p = [] \<longleftrightarrow> merge_inner h p = []"
  by (simp add: merged_frame_map)

lemma set_merge_inner:
  "set (merge_inner h p) =
     {\<lparr>date = h_date a, close = h_close a, yhat = p_yhat b\<rparr> | a b.
        a \<in> set h \<and> b \<in> set p \<and> p_date b = h_date a}"
  by (auto simp: merge_inner_def)

lemma merge_inner_nonempty: "merge_inner h p \<noteq> [] \<Longrightarrow> h \<noteq> [] \<and> p \<noteq> []"
  by (auto simp: merge_inner_def)

lemma merge_inner_disjoint:
  assumes "set (map h_date h) \<inter> set (map p_date p) = {}"
  shows "merge_inner h p = []"
proof -
  have "filter (\<lambda>f. p_date f = h_date a) p = []" if "a \<in> set h" for a
    using assms that by (auto simp: filter_empty_conv)
  then show ?thesis
    by (simp add: merge_inner_def)
qed

lemma build_residual_fig_overlap:
  assumes "merge_inner h p \<noteq> []"
  shows "build_residual_fig (Some h) (Some p) =
     (Some \<lparr>bar_x = map date (merged_frame h p), bar_y = map residual (merged_frame h p)\<rparr>,
      Some (sum_list (map abs_error (merged_frame h p)) / real (length (merged_frame h p))))"
  using assms merge_inner_nonempty [OF assms]
  by (simp add: build_residual_fig_def mean_def Let_def)

lemma build_residual_fig_no_overlap:
  "merge_inner h p = [] \<Longrightarrow> build_residual_fig (Some h) (Some p) = (None, None)"
  by (simp add: build_residual_fig_def)

text \<open>
  C5. The history (2024-01-01, 100), (2024-01-02, 102) joined with the forecast
  (2024-01-02, 101) is the one row of 2024-01-02 with close 102, yhat 101, residual 1 and
  absolute error 1, and the MAE is 1. For any two frames: every joined row has
  residual = close - yhat and abs_error = |residual|; the joined rows are those of the
  pairs of a history row and a forecast row with the same date; and when there is at least
  one, the figure plots the residuals and the MAE is the sum of the absolute errors
  divided by the number of joined rows.
\<close>

theorem residual_join_rows:
  "merged_frame [\<lparr>h_date = ''2024-01-01'', h_close = 100\<rparr>, \<lparr>h_date = ''2024-01-02'', h_close = 102\<rparr>]
                [\<lparr>p_date = ''2024-01-02'', p_yhat = 101\<rparr>]
     = [\<lparr>date = ''2024-01-02'', close = 102, yhat = 101, residual = 1, abs_error = 1\<rparr>]
   \<and> build_residual_fig
        (Some [\<lparr>h_date = ''2024-01-01'', h_close = 100\<rparr>, \<lparr>h_date = ''2024-01-02'', h_close = 102\<rparr>])
        (Some [\<lparr>p_date = ''2024-01-02'', p_yhat = 101\<rparr>])
     = (Some \<lparr>bar_x = [''2024-01-02''], bar_y = [1]\<rparr>, Some 1)
   \<and> (\<forall>r \<in> set (merged_frame h p). residual r = close r - yhat r \<and> abs_error r = \<bar>residual r\<bar>)
   \<and> set (map (\<lambda>r. (date r, close r, yhat r)) (merged_frame h p))
       = {(h_date a, h_close a, p_yhat b) | a b. a \<in> set h \<and> b \<in> set p \<and> p_date b = h_date a}
   \<and> (merged_frame h p \<noteq> [] \<longrightarrow>
        build_residual_fig (Some h) (Some p) =
          (Some \<lparr>bar_x = map date (merged_frame h p), bar_y = map residual (merged_frame h p)\<rparr>,
           Some (sum_list (map abs_error (merged_frame h p)) / real (length (merged_frame h p)))))"
proof (intro conjI)
  show "merged_frame [\<lparr>h_date = ''2024-01-01'', h_close = 100\<rparr>, \<lparr>h_date = ''2024-01-02'', h_close = 102\<rparr>]
                [\<lparr>p_date = ''2024-01-02'', p_yhat = 101\<rparr>]
     = [\<lparr>date = ''2024-01-02'', close = 102, yhat = 101, residual = 1, abs_error = 1\<rparr>]"
    by (simp add: merged_frame_map merge_inner_def)
  show "build_residual_fig
        (Some [\<lparr>h_date = ''2024-01-01'', h_close = 100\<rparr>, \<lparr>h_date = ''2024-01-02'', h_close = 102\<rparr>])
        (Some [\<lparr>p_date = ''2024-01-02'', p_yhat = 101\<rparr>])
     = (Some \<lparr>bar_x = [''2024-01-02''], bar_y = [1]\<rparr>, Some 1)"
    by (simp add: build_residual_fig_def merged_frame_map merge_inner_def mean_def)
  show "\<forall>r \<in> set (merged_frame h p). residual r = close r - yhat r \<and> abs_error r = \<bar>residual r\<bar>"
    by (auto simp: merged_frame_map)
  show "set (map (\<lambda>r. (date r, close r, yhat r)) (merged_frame h p))
       = {(h_date a, h_close a, p_yhat b) | a b. a \<in> set h \<and> b \<in> set p \<and> p_date b = h_date a}"
  proof -
    have "(\<lambda>r. (date r, close r, yhat r)) ` set (merged_frame h p)
            = (\<lambda>r. (date r, close r, yhat r)) ` set (merge_inner h p)"
      by (simp add: merged_frame_map image_image)
    also have "\<dots> = {(h_date a, h_close a, p_yhat b) | a b.
                        a \<in> set h \<and> b \<in> set p \<and> p_date b = h_date a}"
      unfolding set_merge_inner by (rule set_eqI) (fastforce simp: image_iff)
    finally show ?thesis by simp
  qed
  show "merged_frame h p \<noteq> [] \<longrightarrow>
        build_residual_fig (Some h) (Some p) =
          (Some \<lparr>bar_x = map date (merged_frame h p), bar_y = map residual (merged_frame h p)\<rparr>,
           Some (sum_list (map abs_error (merged_frame h p)) / real (length (merged_frame h p))))"
    using build_residual_fig_overlap [of h p] by (simp add: merged_frame_Nil_iff)
qed

theorem residual_join_rows_witness:
  "merged_frame [\<lparr>h_date = ''2024-01-01'', h_close = 100\<rparr>, \<lparr>h_date = ''2024-01-02'', h_close = 102\<rparr>]
                [\<lparr>p_date = ''2024-01-01'', p_yhat = 104\<rparr>, \<lparr>p_date = ''2024-01-02'', p_yhat = 101\<rparr>,
                 \<lparr>p_date = ''2024-01-03'', p_yhat = 99\<rparr>] \<noteq> []
   \<and> build_residual_fig
        (Some [\<lparr>h_date = ''2024-01-01'', h_close = 100\<rparr>, \<lparr>h_date = ''2024-01-02'', h_close = 102\<rparr>])
        (Some [\<lparr>p_date = ''2024-01-01'', p_yhat = 104\<rparr>, \<lparr>p_date = ''2024-01-02'', p_yhat = 101\<rparr>,
               \<lparr>p_date = ''2024-01-03'', p_yhat = 99\<rparr>])
     = (Some \<lparr>bar_x = [''2024-01-01'', ''2024-01-02''], bar_y = [- 4, 1]\<rparr>, Some (5 / 2))"
  using residual_join_rows
    [of "[\<lparr>h_date = ''2024-01-01'', h_close = 100\<rparr>, \<lparr>h_date = ''2024-01-02'', h_close = 102\<rparr>]"
        "[\<lparr>p_date = ''2024-01-01'', p_yhat = 104\<rparr>, \<lparr>p_date = ''2024-01-02'', p_yhat = 101\<rparr>,
          \<lparr>p_date = ''2024-01-03'', p_yhat = 99\<rparr>]"]
  by (simp add: merged_frame_map merge_inner_def)

text \<open>
  C6. Two frames with no date in common, either of which may be empty, give no joined row,
  no figure and no MAE; so does a frame that is \<open>None\<close>. The function has no other result
  than a pair: nothing is raised.
\<close>

theorem no_overlap_no_residuals:
  "(set (map h_date h) \<inter> set (map p_date p) = {} \<longrightarrow>
      merged_frame h p = [] \<and> build_residual_fig (Some h) (Some p) = (None, None))
   \<and> build_residual_fig (Some []) (Some p) = (None, None)
   \<and> build_residual_fig (Some h) (Some []) = (None, None)
   \<and> build_residual_fig None pf = (None, None)
   \<and> build_residual_fig hf None = (None, None)"
proof (intro conjI impI)
  assume "set (map h_date h) \<inter> set (map p_date p) = {}"
  then have "merge_inner h p = []"
    by (rule merge_inner_disjoint)
  then show "merged_frame h p = []" and "build_residual_fig (Some h) (Some p) = (None, None)"
    by (simp_all add: merged_frame_Nil_iff build_residual_fig_no_overlap)
next
  show "build_residual_fig (Some []) (Some p) = (None, None)"
    by (simp add: build_residual_fig_def)
  show "build_residual_fig (Some h) (Some []) = (None, None)"
    by (simp add: build_residual_fig_def)
  show "build_residual_fig None pf = (None, None)"
    by (simp add: build_residual_fig_def)
  show "build_residual_fig hf None = (None, None)"
    by (cases hf) (simp_all add: build_residual_fig_def)
qed

theorem no_overlap_no_residuals_witness:
  "set (map h_date [\<lparr>h_date = ''2024-01-01'', h_close = 100\<rparr>, \<lparr>h_date = ''2024-01-02'', h_close = 102\<rparr>])
     \<inter> set (map p_date [\<lparr>p_date = ''2024-01-03'', p_yhat = 104\<rparr>, \<lparr>p_date = ''2024-01-04'', p_yhat = 101\<rparr>])
     = {}
   \<and> merged_frame [\<lparr>h_date = ''2024-01-01'', h_close = 100\<rparr>, \<lparr>h_date = ''2024-01-02'', h_close = 102\<rparr>]
       [\<lparr>p_date = ''2024-01-03'', p_yhat = 104\<rparr>, \<lparr>p_date = ''2024-01-04'', p_yhat = 101\<rparr>] = []
   \<and> build_residual_fig
        (Some [\<lparr>h_date = ''2024-01-01'', h_close = 100\<rparr>, \<lparr>h_date = ''2024-01-02'', h_close = 102\<rparr>])
        (Some [\<lparr>p_date = ''2024-01-03'', p_yhat = 104\<rparr>, \<lparr>p_date = ''2024-01-04'', p_yhat = 101\<rparr>])
     = (None, None)"
proof -
  have disj:
    "set (map h_date [\<lparr>h_date = ''2024-01-01'', h_close = 100\<rparr>, \<lparr>h_date = ''2024-01-02'', h_close = 102\<rparr>])
     \<inter> set (map p_date [\<lparr>p_date = ''2024-01-03'', p_yhat = 104\<rparr>, \<lparr>p_date = ''2024-01-04'', p_yhat = 101\<rparr>])
     = {}"
    by simp
  show ?thesis
    using disj no_overlap_no_residuals
      [of "[\<lparr>h_date = ''2024-01-01'', h_close = 100\<rparr>, \<lparr>h_date = ''2024-01-02'', h_close = 102\<rparr>]"
          "[\<lparr>p_date = ''2024-01-03'', p_yhat = 104\<rparr>, \<lparr>p_date = ''2024-01-04'', p_yhat = 101\<rparr>]"]
    by blast
qed

subsection \<open>Residuals, with the frames as objects\<close>

lemmas heap_defs = alloc_def assign_def hist_at_def pred_at_def join_at_def resid_at_def
  merged_at_def

lemma build_residual_fig_st_empty:
  assumes "frames s ha = Some (HistF h)" and "frames s pa = Some (PredF p)"
    and "h = [] \<or> p = []"
  shows "build_residual_fig_st (Some ha) (Some pa) s = Some ((None, None), s)"
  using assms by (auto simp add: build_residual_fig_st_def)

lemma build_residual_fig_st_no_overlap:
  assumes "frames s ha = Some (HistF h)" and "frames s pa = Some (PredF p)"
    and "h \<noteq> []" and "p \<noteq> []" and "merge_inner h p = []"
    and "ha < fresh s" and "pa < fresh s"
  shows "build_residual_fig_st (Some ha) (Some pa) s =
           Some ((None, None),
                 \<lparr>frames = (frames s)(fresh s \<mapsto> HistF h, Suc (fresh s) \<mapsto> PredF p,
                                        Suc (Suc (fresh s)) \<mapsto> JoinF []),
                  fresh = Suc (Suc (Suc (fresh s)))\<rparr>)"
  using assms by (simp add: build_residual_fig_st_def heap_defs Let_def)

lemma build_residual_fig_st_overlap:
  assumes "frames s ha = Some (HistF h)" and "frames s pa = Some (PredF p)"
    and "merge_inner h p \<noteq> []"
    and "ha < fresh s" and "pa < fresh s"
  shows "build_residual_fig_st (Some ha) (Some pa) s =
           Some (build_residual_fig (Some h) (Some p),
                 \<lparr>frames = (frames s)(fresh s \<mapsto> HistF h, Suc (fresh s) \<mapsto> PredF p,
                                        Suc (Suc (fresh s)) \<mapsto> MergedF (merged_frame h p)),
                  fresh = Suc (Suc (Suc (fresh s)))\<rparr>)"
proof -
  from assms(3) have ne: "h \<noteq> []" "p \<noteq> []"
    by (auto simp: merge_inner_def)
  show ?thesis
    using assms ne
    by (simp add: build_residual_fig_st_def build_residual_fig_def heap_defs Let_def
        merged_frame_def)
qed

lemma build_residual_fig_st_total:
  assumes "frames s ha = Some (HistF h)" and "frames s pa = Some (PredF p)"
    and "ha < fresh s" and "pa < fresh s"
  shows "\<exists>s'. build_residual_fig_st (Some ha) (Some pa) s =
                 Some (build_residual_fig (Some h) (Some p), s')
              \<and> (\<forall>a. a < fresh s \<longrightarrow> frames s' a = frames s a)"
proof (cases "h = [] \<or> p = []")
  case True
  then have "build_residual_fig (Some h) (Some p) = (None, None)"
    by (auto simp: build_residual_fig_def)
  with True assms show ?thesis
    by (simp add: build_residual_fig_st_empty)
next
  case ne: False
  show ?thesis
  proof (cases "merge_inner h p = []")
    case True
    then have "build_residual_fig (Some h) (Some p) = (None, None)"
      by (simp add: build_residual_fig_def)
    with True ne assms show ?thesis
      by (simp add: build_residual_fig_st_no_overlap)
  next
    case False
    with assms show ?thesis
      by (simp add: build_residual_fig_st_overlap)
  qed
qed

text \<open>
  C10. Called on two allocated frames, the function returns what the function on values
  returns, and in the store it leaves every object that was there before has the content
  it had: the two arguments still hold the history and the forecast rows they held. The
  columns \<^verbatim>\<open>residual\<close> and \<^verbatim>\<open>abs_error\<close> go to the new object of the join. With an
  argument that is \<open>None\<close> the store is returned as it was.
\<close>

theorem residual_join_leaves_inputs:
  assumes "frames s ha = Some (HistF h)" and "frames s pa = Some (PredF p)"
    and "ha < fresh s" and "pa < fresh s"
  shows "(\<exists>s'. build_residual_fig_st (Some ha) (Some pa) s =
                 Some (build_residual_fig (Some h) (Some p), s')
              \<and> frames s' ha = Some (HistF h) \<and> frames s' pa = Some (PredF p)
              \<and> (\<forall>a. a < fresh s \<longrightarrow> frames s' a = frames s a))
         \<and> build_residual_fig_st None (Some pa) s = Some ((None, None), s)
         \<and> build_residual_fig_st (Some ha) None s = Some ((None, None), s)"
proof (intro conjI)
  from build_residual_fig_st_total [OF assms] obtain s' where
    r: "build_residual_fig_st (Some ha) (Some pa) s = Some (build_residual_fig (Some h) (Some p), s')"
    and k: "\<forall>a. a < fresh s \<longrightarrow> frames s' a = frames s a"
    by blast
  from k assms have "frames s' ha = Some (HistF h)" and "frames s' pa = Some (PredF p)"
    by simp_all
  with r k show "\<exists>s'. build_residual_fig_st (Some ha) (Some pa) s =
                 Some (build_residual_fig (Some h) (Some p), s')
              \<and> frames s' ha = Some (HistF h) \<and> frames s' pa = Some (PredF p)
              \<and> (\<forall>a. a < fresh s \<longrightarrow> frames s' a = frames s a)"
    by blast
  show "build_residual_fig_st None (Some pa) s = Some ((None, None), s)"
    by (simp add: build_residual_fig_st_def)
  show "build_residual_fig_st (Some ha) None s = Some ((None, None), s)"
    by (simp add: build_residual_fig_st_def)
qed

theorem residual_join_leaves_inputs_witness:
  "\<exists>s'. build_residual_fig_st (Some 0) (Some 1)
           \<lparr>frames = [0 \<mapsto> HistF [\<lparr>h_date = ''2024-01-01'', h_close = 100\<rparr>,
                                    \<lparr>h_date = ''2024-01-02'', h_close = 102\<rparr>],
                      1 \<mapsto> PredF [\<lparr>p_date = ''2024-01-02'', p_yhat = 101\<rparr>]],
            fresh = 2\<rparr>
         = Some ((Some \<lparr>bar_x = [''2024-01-02''], bar_y = [1]\<rparr>, Some 1), s')
       \<and> frames s' 0 = Some (HistF [\<lparr>h_date = ''2024-01-01'', h_close = 100\<rparr>,
                                     \<lparr>h_date = ''2024-01-02'', h_close = 102\<rparr>])
       \<and> frames s' 1 = Some (PredF [\<lparr>p_date = ''2024-01-02'', p_yhat = 101\<rparr>])"
proof -
  have r: "build_residual_fig
        (Some [\<lparr>h_date = ''2024-01-01'', h_close = 100\<rparr>, \<lparr>h_date = ''2024-01-02'', h_close = 102\<rparr>])
        (Some [\<lparr>p_date = ''2024-01-02'', p_yhat = 101\<rparr>])
     = (Some \<lparr>bar_x = [''2024-01-02''], bar_y = [1]\<rparr>, Some 1)"
    by (simp add: build_residual_fig_def merged_frame_map merge_inner_def mean_def)
  from residual_join_leaves_inputs
    [of "\<lparr>frames = [0 \<mapsto> HistF [\<lparr>h_date = ''2024-01-01'', h_close = 100\<rparr>,
                                    \<lparr>h_date = ''2024-01-02'', h_close = 102\<rparr>],
                      1 \<mapsto> PredF [\<lparr>p_date = ''2024-01-02'', p_yhat = 101\<rparr>]],
            fresh = 2\<rparr>"
        0 "[\<lparr>h_date = ''2024-01-01'', h_close = 100\<rparr>, \<lparr>h_date = ''2024-01-02'', h_close = 102\<rparr>]"
        1 "[\<lparr>p_date = ''2024-01-02'', p_yhat = 101\<rparr>]"]
  show ?thesis
    unfolding r by simp blast
qed

subsection \<open>The script\<close>

lemma health_ok_iff:
  "health_ok r \<longleftrightarrow> (\<exists>health. r = Inr health \<and> status health = Some ''ok'')"
  by (cases r) (simp_all add: health_ok_def)

lemma cycle_unhealthy:
  "\<not> health_ok (health_api srv) \<Longrightarrow> cycle parse cfg srv = ([GetHealth], Stopped Unhealthy)"
  by (simp add: cycle_def)

lemma cycle_predict_failed:
  assumes "health_ok (health_api srv)" and "fetch_predictions parse (predict_api srv) = None"
  shows "cycle parse cfg srv =
           ([GetHealth, GetPredict (asset cfg) (horizon cfg)], Stopped PredictFailed)"
  using assms by (simp add: cycle_def)

lemma cycle_fetched:
  assumes "health_ok (health_api srv)"
    and "fetch_predictions parse (predict_api srv) = Some (pred_data, df)"
  shows "cycle parse cfg srv =
     ([GetHealth, GetPredict (asset cfg) (horizon cfg), GetHistory (asset cfg) (history_days cfg)],
      (case step_tile (delta (kpi_row (last_value pred_data) df))
                      (pct (kpi_row (last_value pred_data) df)) of
         Inl x \<Rightarrow> Crashed x
       | Inr c4 \<Rightarrow>
           Rendered
             \<lparr>shown_last_date = last_date pred_data,
              shown_last_value = last_value pred_data,
              shown_kpis = kpi_row (last_value pred_data) df,
              step_change = c4,
              horizon_change = horizon_tile (delta_h (kpi_row (last_value pred_data) df))
                                            (pct_h (kpi_row (last_value pred_data) df)),
              d_history_supported = fst (fetch_history parse (history_api srv)),
              d_history_df = snd (fetch_history parse (history_api srv)),
              d_pred_df = df,
              diag = diagnostics_of (fst (fetch_history parse (history_api srv)))
                       (snd (fetch_history parse (history_api srv))) df\<rparr>))"
  using assms
  by (simp add: cycle_def Let_def split_beta split: sum.splits)






text \<open>
  C8. A health response is healthy exactly when it is a body whose status is \<^verbatim>\<open>ok\<close>:
  an exception, a missing status and any other status are not. A run that is not healthy
  issues the health request alone and stops on the error; a healthy run goes on to request
  the forecast.
\<close>

theorem unhealthy_cycle_stops_before_fetching:
  "(health_ok r \<longleftrightarrow> (\<exists>health. r = Inr health \<and> status health = Some ''ok''))
   \<and> (\<not> health_ok (health_api srv) \<longrightarrow> cycle parse cfg srv = ([GetHealth], Stopped Unhealthy))
   \<and> (health_ok (health_api srv) \<longrightarrow>
        (\<exists>rest out. cycle parse cfg srv = (GetHealth # GetPredict (asset cfg) (horizon cfg) # rest, out)
                    \<and> out \<noteq> Stopped Unhealthy))"
proof (intro conjI impI)
  show "health_ok r \<longleftrightarrow> (\<exists>health. r = Inr health \<and> status health = Some ''ok'')"
    by (rule health_ok_iff)
  show "cycle parse cfg srv = ([GetHealth], Stopped Unhealthy)" if "\<not> health_ok (health_api srv)"
    using that by (rule cycle_unhealthy)
  show "\<exists>rest out. cycle parse cfg srv = (GetHealth # GetPredict (asset cfg) (horizon cfg) # rest, out)
                    \<and> out \<noteq> Stopped Unhealthy" if ok: "health_ok (health_api srv)"
  proof (cases "fetch_predictions parse (predict_api srv)")
    case None
    with ok show ?thesis by (simp add: cycle_predict_failed)
  next
    case (Some a)
    then obtain pred_data df where "fetch_predictions parse (predict_api srv) = Some (pred_data, df)"
      by (cases a) simp
    with ok show ?thesis
      by (simp add: cycle_fetched split: sum.splits)
  qed
qed

theorem unhealthy_cycle_stops_before_fetching_witness:
  "\<not> health_ok (Inr \<lparr>status = Some ''starting''\<rparr>)
   \<and> cycle iso_col \<lparr>asset = ''BTC-USD'', horizon = 7, history_days = 365\<rparr>
        \<lparr>health_api = Inr \<lparr>status = Some ''starting''\<rparr>,
         predict_api = Inr \<lparr>last_date = None, last_value = None, predictions = []\<rparr>,
         history_api = Inr \<lparr>history = []\<rparr>\<rparr>
       = ([GetHealth], Stopped Unhealthy)
   \<and> \<not> health_ok (Inl ''timed out'')
   \<and> cycle iso_col \<lparr>asset = ''BTC-USD'', horizon = 7, history_days = 365\<rparr>
        \<lparr>health_api = Inl ''timed out'',
         predict_api = Inr \<lparr>last_date = None, last_value = None, predictions = []\<rparr>,
         history_api = Inr \<lparr>history = []\<rparr>\<rparr>
       = ([GetHealth], Stopped Unhealthy)
   \<and> health_ok (Inr \<lparr>status = Some ''ok''\<rparr>)"
proof -
  have a: "\<not> health_ok (Inr \<lparr>status = Some ''starting''\<rparr>)"
    and b: "\<not> health_ok (Inl ''timed out'')"
    and c: "health_ok (Inr \<lparr>status = Some ''ok''\<rparr>)"
    by (simp_all add: health_ok_def)
  from a b c
    unhealthy_cycle_stops_before_fetching
      [where srv = "\<lparr>health_api = Inr \<lparr>status = Some ''starting''\<rparr>,
          predict_api = Inr \<lparr>last_date = None, last_value = None, predictions = []\<rparr>,
          history_api = Inr \<lparr>history = []\<rparr>\<rparr>"
        and parse = iso_col
        and cfg = "\<lparr>asset = ''BTC-USD'', horizon = 7, history_days = 365\<rparr>"]
    unhealthy_cycle_stops_before_fetching
      [where srv = "\<lparr>health_api = Inl ''timed out'',
          predict_api = Inr \<lparr>last_date = None, last_value = None, predictions = []\<rparr>,
          history_api = Inr \<lparr>history = []\<rparr>\<rparr>"
        and parse = iso_col
        and cfg = "\<lparr>asset = ''BTC-USD'', horizon = 7, history_days = 365\<rparr>"]
  show ?thesis by simp
qed

text \<open>
  C2, as the code has it. The last value the KPI row starts from is always the
  \<^verbatim>\<open>last_value\<close> of the predict response, and the last date its \<^verbatim>\<open>last_date\<close>; the
  history frame is not read for them. A run that renders shows the same last value, KPI
  row and change tiles whatever the history request returns.
\<close>

theorem kpis_use_api_last_value:
  assumes "cycle parse cfg srv = (reqs, Rendered d)"
  shows "\<exists>pred_data. predict_api srv = Inr pred_data
          \<and> shown_last_value d = last_value pred_data
          \<and> shown_last_date d = last_date pred_data
          \<and> shown_kpis d = kpi_row (last_value pred_data) (d_pred_df d)
          \<and> (\<forall>hr. \<exists>d'. cycle parse cfg (srv\<lparr>history_api := hr\<rparr>) = (reqs, Rendered d')
                  \<and> shown_last_value d' = shown_last_value d
                  \<and> shown_kpis d' = shown_kpis d
                  \<and> step_change d' = step_change d
                  \<and> horizon_change d' = horizon_change d)"
proof -
  have ok: "health_ok (health_api srv)"
  proof (rule ccontr)
    assume "\<not> health_ok (health_api srv)"
    then have "cycle parse cfg srv = ([GetHealth], Stopped Unhealthy)"
      by (rule cycle_unhealthy)
    with assms show False by simp
  qed
  with assms obtain pred_data df where
    f: "fetch_predictions parse (predict_api srv) = Some (pred_data, df)"
    by (cases "fetch_predictions parse (predict_api srv)") (auto simp: cycle_predict_failed)
  then have p: "predict_api srv = Inr pred_data"
    by (auto simp: fetch_predictions_def split: sum.splits option.splits)
  obtain c4 where c4: "step_tile (delta (kpi_row (last_value pred_data) df))
                      (pct (kpi_row (last_value pred_data) df)) = Inr c4"
    using assms cycle_fetched [OF ok f, of cfg]
    by (cases "step_tile (delta (kpi_row (last_value pred_data) df))
                      (pct (kpi_row (last_value pred_data) df))") auto
  have d: "d = \<lparr>shown_last_date = last_date pred_data,
              shown_last_value = last_value pred_data,
              shown_kpis = kpi_row (last_value pred_data) df,
              step_change = c4,
              horizon_change = horizon_tile (delta_h (kpi_row (last_value pred_data) df))
                                            (pct_h (kpi_row (last_value pred_data) df)),
              d_history_supported = fst (fetch_history parse (history_api srv)),
              d_history_df = snd (fetch_history parse (history_api srv)),
              d_pred_df = df,
              diag = diagnostics_of (fst (fetch_history parse (history_api srv)))
                       (snd (fetch_history parse (history_api srv))) df\<rparr>"
    and l: "reqs = [GetHealth, GetPredict (asset cfg) (horizon cfg), GetHistory (asset cfg) (history_days cfg)]"
    using assms cycle_fetched [OF ok f, of cfg] c4 by simp_all
  have "\<exists>d'. cycle parse cfg (srv\<lparr>history_api := hr\<rparr>) = (reqs, Rendered d')
                  \<and> shown_last_value d' = shown_last_value d
                  \<and> shown_kpis d' = shown_kpis d
                  \<and> step_change d' = step_change d
                  \<and> horizon_change d' = horizon_change d" for hr
  proof -
    have "health_ok (health_api (srv\<lparr>history_api := hr\<rparr>))"
      and "fetch_predictions parse (predict_api (srv\<lparr>history_api := hr\<rparr>)) = Some (pred_data, df)"
      using ok f by simp_all
    from cycle_fetched [OF this, of cfg] show ?thesis
      by (simp add: c4 d l)
  qed
  with p show ?thesis
    by (simp add: d)
qed

theorem kpis_use_api_last_value_witness:
  "\<forall>hr. \<exists>d'.
      cycle iso_col \<lparr>asset = ''BTC-USD'', horizon = 1, history_days = 90\<rparr>
        \<lparr>health_api = Inr \<lparr>status = Some ''ok''\<rparr>,
         predict_api = Inr \<lparr>last_date = Some ''2024-01-02'', last_value = Some 100,
                            predictions = [\<lparr>p_date = ''2024-01-03'', p_yhat = 105\<rparr>]\<rparr>,
         history_api = hr\<rparr>
        = ([GetHealth, GetPredict ''BTC-USD'' 1, GetHistory ''BTC-USD'' 90], Rendered d')
      \<and> shown_last_value d' = Some 100
      \<and> shown_kpis d' = \<lparr>end_pred = Some 105, delta_h = Some 5, pct_h = Some 5,
                           next_pred = Some 105, delta = Some 5, pct = Some 5\<rparr>
      \<and> step_change d' = Change True 5 5"
proof -
  have c: "cycle iso_col \<lparr>asset = ''BTC-USD'', horizon = 1, history_days = 90\<rparr>
        \<lparr>health_api = Inr \<lparr>status = Some ''ok''\<rparr>,
         predict_api = Inr \<lparr>last_date = Some ''2024-01-02'', last_value = Some 100,
                            predictions = [\<lparr>p_date = ''2024-01-03'', p_yhat = 105\<rparr>]\<rparr>,
         history_api = Inl ''404''\<rparr>
     = ([GetHealth, GetPredict ''BTC-USD'' 1, GetHistory ''BTC-USD'' 90],
        Rendered
          \<lparr>shown_last_date = Some ''2024-01-02'', shown_last_value = Some 100,
           shown_kpis = \<lparr>end_pred = Some 105, delta_h = Some 5, pct_h = Some 5,
                         next_pred = Some 105, delta = Some 5, pct = Some 5\<rparr>,
           step_change = Change True 5 5, horizon_change = Change True 5 5,
           d_history_supported = False, d_history_df = [],
           d_pred_df = [\<lparr>p_date = ''2024-01-03'', p_yhat = 105\<rparr>],
           diag = HistoryDisabled\<rparr>)"
    (is "cycle _ ?cfg ?srv = (?reqs, Rendered ?d)")
    by (simp add: cycle_defs)
  from kpis_use_api_last_value [OF c]
  have "\<forall>hr. \<exists>d'. cycle iso_col ?cfg (?srv\<lparr>history_api := hr\<rparr>) = (?reqs, Rendered d')
          \<and> shown_last_value d' = shown_last_value ?d
          \<and> shown_kpis d' = shown_kpis ?d
          \<and> step_change d' = step_change ?d
          \<and> horizon_change d' = horizon_change ?d"
    by blast
  then show ?thesis
    by (simp; blast)
qed

text \<open>
  The claim as stated fails: with a history of two rows whose latest close is 50 and a
  reported last value of 100, the run shows 100 and a step change of 105 - 100.
\<close>

theorem kpis_ignore_history_counterexample:
  "cycle iso_col \<lparr>asset = ''BTC-USD'', horizon = 1, history_days = 90\<rparr>
        \<lparr>health_api = Inr \<lparr>status = Some ''ok''\<rparr>,
         predict_api = Inr \<lparr>last_date = Some ''2024-01-02'', last_value = Some 100,
                            predictions = [\<lparr>p_date = ''2024-01-03'', p_yhat = 105\<rparr>]\<rparr>,
         history_api = Inr \<lparr>history = [\<lparr>h_date = ''2024-01-01'', h_close = 40\<rparr>,
                                        \<lparr>h_date = ''2024-01-02'', h_close = 50\<rparr>]\<rparr>\<rparr>
     = ([GetHealth, GetPredict ''BTC-USD'' 1, GetHistory ''BTC-USD'' 90],
        Rendered
          \<lparr>shown_last_date = Some ''2024-01-02'', shown_last_value = Some 100,
           shown_kpis = \<lparr>end_pred = Some 105, delta_h = Some 5, pct_h = Some 5,
                         next_pred = Some 105, delta = Some 5, pct = Some 5\<rparr>,
           step_change = Change True 5 5, horizon_change = Change True 5 5,
           d_history_supported = True,
           d_history_df = [\<lparr>h_date = ''2024-01-01'', h_close = 40\<rparr>,
                           \<lparr>h_date = ''2024-01-02'', h_close = 50\<rparr>],
           d_pred_df = [\<lparr>p_date = ''2024-01-03'', p_yhat = 105\<rparr>],
           diag = NoOverlap\<rparr>)
   \<and> Some (100::real)
       \<noteq> Some (h_close (last [\<lparr>h_date = ''2024-01-01'', h_close = 40\<rparr>,
                                 \<lparr>h_date = ''2024-01-02'', h_close = 50\<rparr>]))"
  by (simp add: cycle_defs)






end
